theory Spec2Isabelle
  imports Main "HOL-Library.Multiset" "HOL-Library.Sublist"
begin

section \<open>go-tweet-cleaner: the delete command\<close>

text \<open>
  A shallow embedding of \<^verbatim>\<open>cmd/delete.go\<close> (\<^verbatim>\<open>runDelete\<close>, \<^verbatim>\<open>checkTweetExists\<close>) and of the
  flags declared in \<^verbatim>\<open>cmd/root.go\<close>. The command is one sequential function; the model
  follows it section by section and keeps its names. Everything the command does to the
  outside world is recorded, in order, in a list of events: console output, calls of
  \<^verbatim>\<open>client.Do\<close>, calls of \<^verbatim>\<open>time.Sleep\<close> and the read of the confirmation line.
\<close>

subsection \<open>Data\<close>

text \<open>\<^verbatim>\<open>type TwitterArchiveTweet struct\<close> (delete.go, lines 42-47).\<close>

record TwitterArchiveTweet =
  ID :: string
  CreatedAt :: string
  Text :: string
  Retweeted :: bool

text \<open>
  The package-level flag variables: \<^verbatim>\<open>consumerKey\<close>, \<^verbatim>\<open>consumerSecret\<close>, \<^verbatim>\<open>accessToken\<close>,
  \<^verbatim>\<open>accessTokenSecret\<close> and \<^verbatim>\<open>limit\<close> (root.go, lines 10-16), \<^verbatim>\<open>archivePath\<close>, \<^verbatim>\<open>dryRun\<close> and
  \<^verbatim>\<open>sortOrder\<close> (delete.go, lines 20-24). \<^verbatim>\<open>offset\<close> is read by \<^verbatim>\<open>runDelete\<close> (lines 221-227)
  as an \<^verbatim>\<open>int\<close>; its declaration is in neither file, so it is one more field here. Go's
  \<^verbatim>\<open>int\<close> values are only compared, never added, so they are modelled as \<open>int\<close>.
\<close>

record flags =
  consumerKey :: string
  consumerSecret :: string
  accessToken :: string
  accessTokenSecret :: string
  limit :: int
  offset :: int
  archivePath :: string
  dryRun :: bool
  sortOrder :: string

text \<open>
  An instant of time: what a \<^verbatim>\<open>time.Time\<close> denotes, counted from Go's zero \<^verbatim>\<open>Time\<close>
  (January 1, year 1, 00:00:00 UTC); negative for an instant before it.
  \<^verbatim>\<open>Before\<close> and \<^verbatim>\<open>After\<close> compare instants.
\<close>

type_synonym instant = int

text \<open>What \<^verbatim>\<open>os.Stat\<close> answers: a file (with \<^verbatim>\<open>IsDir\<close>), "does not exist", or another error.\<close>

datatype stat_result = StatOk bool | StatNotExist | StatError

text \<open>
  What \<^verbatim>\<open>client.Do\<close> answers: an error, or a response: its status code, what
  \<^verbatim>\<open>ioutil.ReadAll\<close> reads of its body, and whether \<^verbatim>\<open>ioutil.ReadAll\<close> returns an error.
\<close>

datatype http_result = DoError | Response int string bool

text \<open>
  The libraries and the outside world the command calls, as parameters. The remote
  service has a state of its own (type \<open>'c\<close>), which every call of \<^verbatim>\<open>client.Do\<close> may change.
  \<^verbatim>\<open>sort_Slice\<close> takes the comparison on elements: the source's closures compare
  \<^verbatim>\<open>tweets[i]\<close> with \<^verbatim>\<open>tweets[j]\<close>. \<^verbatim>\<open>time_Parse\<close> is \<^verbatim>\<open>time.Parse\<close> at the one layout the
  source uses, \<open>None\<close> for an error; \<^verbatim>\<open>json_Unmarshal\<close> decodes an array of wrapper objects
  to the tweets inside them.
\<close>

record 'c env =
  os_Stat :: "string \<Rightarrow> stat_result"
  ioutil_ReadDir :: "string \<Rightarrow> (string \<times> bool) list option"
  ioutil_ReadFile :: "string \<Rightarrow> string option"
  filepath_Join :: "string list \<Rightarrow> string"
  json_Unmarshal :: "string \<Rightarrow> TwitterArchiveTweet list option"
  time_Parse :: "string \<Rightarrow> instant option"
  sort_Slice :: "(TwitterArchiveTweet \<Rightarrow> TwitterArchiveTweet \<Rightarrow> bool) \<Rightarrow>
                 TwitterArchiveTweet list \<Rightarrow> TwitterArchiveTweet list"
  stdin_ReadString :: string
  strings_ToLower :: "string \<Rightarrow> string"
  strings_TrimSpace :: "string \<Rightarrow> string"
  http_NewRequest :: "string \<Rightarrow> string \<Rightarrow> bool"
  client_Do :: "'c \<Rightarrow> string \<Rightarrow> string \<Rightarrow> http_result \<times> 'c"

text \<open>
  Events. \<open>Printf fmt args\<close> is a call of \<^verbatim>\<open>fmt.Printf\<close> or \<^verbatim>\<open>fmt.Println\<close>: the format string
  (without its line breaks) and the arguments. \<open>HttpDo method url\<close> is a request sent with
  \<^verbatim>\<open>client.Do\<close>, \<open>Sleep d\<close> a call of \<^verbatim>\<open>time.Sleep\<close> with \<open>d\<close> nanoseconds.
\<close>

datatype arg = AStr string | AInt int | ATime instant | AErr

datatype event =
    Printf string "arg list"
  | HttpDo string string
  | Sleep int
  | ReadStdin

text \<open>
  The state the command threads through: the remote service, the events so far, and the
  three counters \<^verbatim>\<open>success\<close>, \<^verbatim>\<open>failures\<close> and \<^verbatim>\<open>alreadyDeleted\<close> (locals of lines 277-279).
\<close>

record 'c state =
  conn :: 'c
  out :: "event list"
  success :: nat
  failures :: nat
  alreadyDeleted :: nat

definition emit :: "event list \<Rightarrow> 'c state \<Rightarrow> 'c state" where
  "emit es st = st\<lparr>out := out st @ es\<rparr>"

text \<open>How a run of the command ends.\<close>

datatype outcome =
    MissingCredentials
  | ArchiveNotExist
  | Panic
  | ArchiveNotDir
  | NoDataFiles
  | NoTweets
  | OffsetOutOfRange
  | Cancelled
  | DryRun
  | Completed

subsection \<open>Finding and reading the archive (delete.go, lines 112-189)\<close>

definition statOk :: "stat_result \<Rightarrow> bool" where
  "statOk r = (case r of StatOk _ \<Rightarrow> True | _ \<Rightarrow> False)"

text \<open>
  Lines 112-140: \<^verbatim>\<open>data/tweets.js\<close> when it exists, then every \<^verbatim>\<open>.js\<close> file that is not a
  directory of \<^verbatim>\<open>data/tweets\<close> when that exists and can be listed, and \<^verbatim>\<open>data/tweet.js\<close> only
  when the list is still empty.
\<close>

definition findTweetFiles :: "'c env \<Rightarrow> string \<Rightarrow> string list" where
  "findTweetFiles env path =
     (let tweetsFile = filepath_Join env [path, ''data'', ''tweets.js''];
          tweetFiles1 = (if statOk (os_Stat env tweetsFile) then [tweetsFile] else []);
          tweetDataDir = filepath_Join env [path, ''data'', ''tweets''];
          tweetFiles2 =
            (if statOk (os_Stat env tweetDataDir)
             then (case ioutil_ReadDir env tweetDataDir of
                     None \<Rightarrow> tweetFiles1
                   | Some files \<Rightarrow>
                       tweetFiles1 @
                       map (\<lambda>(name, isDir). filepath_Join env [tweetDataDir, name])
                         (filter (\<lambda>(name, isDir). \<not> isDir \<and> suffix ''.js'' name) files))
             else tweetFiles1);
          oldFormatFile = filepath_Join env [path, ''data'', ''tweet.js'']
      in if length tweetFiles2 = 0
         then (if statOk (os_Stat env oldFormatFile) then tweetFiles2 @ [oldFormatFile]
               else tweetFiles2)
         else tweetFiles2)"

text \<open>
  \<^verbatim>\<open>bytes.SplitN(content, sep, 2)\<close> for a separator that is not empty: \<open>None\<close> when the result has
  one part (no separator in the content), otherwise the second part, which is what follows
  the first separator.
\<close>

fun splitAfter :: "string \<Rightarrow> string \<Rightarrow> string option" where
  "splitAfter sep [] = None"
| "splitAfter sep (c # cs) =
     (if prefix sep (c # cs) then Some (drop (length sep) (c # cs)) else splitAfter sep cs)"

text \<open>
  Lines 152-189, one file: the events it prints and the tweets it adds. A file that cannot
  be read, has the header without its \<^verbatim>\<open>= \<close>, or does not decode, adds none.
\<close>

definition readTweetFile :: "'c env \<Rightarrow> string \<Rightarrow> event list \<times> TwitterArchiveTweet list" where
  "readTweetFile env file =
     (case ioutil_ReadFile env file of
        None \<Rightarrow> ([Printf ''Reading %s...'' [AStr file],
                  Printf ''Error reading file %s: %v'' [AStr file, AErr]], [])
      | Some content \<Rightarrow>
          (case (if prefix ''window.'' content then splitAfter ''= '' content else Some content) of
             None \<Rightarrow> ([Printf ''Reading %s...'' [AStr file],
                       Printf ''Error parsing file %s: unexpected format'' [AStr file]], [])
           | Some jsonContent \<Rightarrow>
               (case json_Unmarshal env jsonContent of
                  None \<Rightarrow> ([Printf ''Reading %s...'' [AStr file],
                            Printf ''Error parsing JSON from file %s: %v'' [AStr file, AErr]], [])
                | Some tweetData \<Rightarrow> ([Printf ''Reading %s...'' [AStr file]], tweetData))))"

fun readTweets ::
  "'c env \<Rightarrow> string list \<Rightarrow> TwitterArchiveTweet list \<Rightarrow> 'c state \<Rightarrow> TwitterArchiveTweet list \<times> 'c state"
where
  "readTweets env [] tweets st = (tweets, st)"
| "readTweets env (file # files) tweets st =
     (case readTweetFile env file of
        (es, found) \<Rightarrow> readTweets env files (tweets @ found) (emit es st))"

subsection \<open>Sorting and selecting (delete.go, lines 198-235)\<close>

text \<open>
  \<^verbatim>\<open>timeI, _ := time.Parse(layout, tweets[i].CreatedAt)\<close>: the error is dropped, and with an
  error \<^verbatim>\<open>time.Parse\<close> returns the zero \<^verbatim>\<open>Time\<close>.
\<close>

definition parsedTime :: "'c env \<Rightarrow> TwitterArchiveTweet \<Rightarrow> instant" where
  "parsedTime env tweet = (case time_Parse env (CreatedAt tweet) of None \<Rightarrow> 0 | Some t \<Rightarrow> t)"

text \<open>The two comparisons given to \<^verbatim>\<open>sort.Slice\<close>: \<^verbatim>\<open>timeI.Before(timeJ)\<close> and \<^verbatim>\<open>timeI.After(timeJ)\<close>.\<close>

definition oldestFirst :: "'c env \<Rightarrow> TwitterArchiveTweet \<Rightarrow> TwitterArchiveTweet \<Rightarrow> bool" where
  "oldestFirst env a b = (parsedTime env a < parsedTime env b)"

definition newestFirst :: "'c env \<Rightarrow> TwitterArchiveTweet \<Rightarrow> TwitterArchiveTweet \<Rightarrow> bool" where
  "newestFirst env a b = (parsedTime env a > parsedTime env b)"

text \<open>Lines 199-216: \<^verbatim>\<open>switch sortOrder\<close>.\<close>

definition sortTweets ::
  "'c env \<Rightarrow> string \<Rightarrow> TwitterArchiveTweet list \<Rightarrow> 'c state \<Rightarrow> TwitterArchiveTweet list \<times> 'c state"
where
  "sortTweets env order tweets st =
     (if order = ''oldest''
      then (sort_Slice env (oldestFirst env) tweets,
            emit [Printf ''Sorted tweets by date (oldest first)'' []] st)
      else if order = ''newest''
      then (sort_Slice env (newestFirst env) tweets,
            emit [Printf ''Sorted tweets by date (newest first)'' []] st)
      else (tweets,
            emit [Printf ''Using original order from archive (sort option: %s)'' [AStr order]] st))"

text \<open>
  Lines 218-235: within \<^verbatim>\<open>if limit > 0\<close>, the offset and then the limit. \<open>None\<close> is the
  \<^verbatim>\<open>return\<close> of line 224. The two slice expressions are in range where they are reached:
  \<^verbatim>\<open>tweets[offset:]\<close> with \<open>0 < offset < len(tweets)\<close>, \<^verbatim>\<open>tweets[:limit]\<close> with
  \<open>0 < limit < len(tweets)\<close>.
\<close>

definition selectTweets ::
  "int \<Rightarrow> int \<Rightarrow> TwitterArchiveTweet list \<Rightarrow> 'c state \<Rightarrow> TwitterArchiveTweet list option \<times> 'c state"
where
  "selectTweets lim off tweets st =
     (if lim > 0
      then
        (if off > 0 \<and> off \<ge> int (length tweets)
         then (None, emit [Printf ''Offset %d is greater than the number of tweets (%d)''
                             [AInt off, AInt (int (length tweets))]] st)
         else
           (let (tweets1, st1) =
                  (if off > 0
                   then (drop (nat off) tweets,
                         emit [Printf ''Skipped %d tweets as specified by offset'' [AInt off]] st)
                   else (tweets, st))
            in if int (length tweets1) > lim
               then (Some (take (nat lim) tweets1),
                     emit [Printf ''Limited to %d tweets as specified'' [AInt lim]] st1)
               else (Some tweets1, st1)))
      else (Some tweets, st))"

subsection \<open>Display and confirmation (delete.go, lines 237-268)\<close>

text \<open>Lines 241-252: one line for the tweet at index \<open>i\<close>, its text cut to 47 bytes and \<^verbatim>\<open>...\<close> when longer than 50.\<close>

definition displayLine :: "'c env \<Rightarrow> nat \<times> TwitterArchiveTweet \<Rightarrow> event" where
  "displayLine env p =
     (case p of (i, tweet) \<Rightarrow>
        Printf ''%d: [%s] %s (ID: %s)''
          [AInt (int i + 1), ATime (parsedTime env tweet),
           AStr (if length (Text tweet) > 50 then take 47 (Text tweet) @ ''...'' else Text tweet),
           AStr (ID tweet)])"

definition displayTweets :: "'c env \<Rightarrow> TwitterArchiveTweet list \<Rightarrow> event list" where
  "displayTweets env tweets =
     [Printf ''Tweets from your archive:'' [], Printf ''========================='' []]
     @ map (displayLine env) (enumerate 0 tweets)"

subsection \<open>The deletion loop (delete.go, lines 281-337)\<close>

definition Millisecond :: int where
  "Millisecond = 1000000"

definition Minute :: int where
  "Minute = 60 * 1000 * Millisecond"

definition rateLimit :: nat where
  "rateLimit = 50"

definition rateLimitWindow :: int where
  "rateLimitWindow = 15 * Minute"

definition tweetURL :: "string \<Rightarrow> string" where
  "tweetURL tweetID = ''https://api.twitter.com/2/tweets/'' @ tweetID"

text \<open>\<^verbatim>\<open>checkTweetExists\<close> (lines 62-92): true only for a response read in full with status 200.\<close>

definition checkTweetExists :: "'c env \<Rightarrow> string \<Rightarrow> 'c state \<Rightarrow> bool \<times> 'c state" where
  "checkTweetExists env tweetID st =
     (if \<not> http_NewRequest env ''GET'' (tweetURL tweetID) then (False, st)
      else
        (case client_Do env (conn st) ''GET'' (tweetURL tweetID) of
          (DoError, c) \<Rightarrow>
            (False, emit [HttpDo ''GET'' (tweetURL tweetID),
                          Printf ''Error checking tweet %s: %v'' [AStr tweetID, AErr]]
                      (st\<lparr>conn := c\<rparr>))
        | (Response code body readErr, c) \<Rightarrow>
            if readErr
            then (False, emit [HttpDo ''GET'' (tweetURL tweetID),
                               Printf ''Error reading response for tweet %s: %v'' [AStr tweetID, AErr]]
                           (st\<lparr>conn := c\<rparr>))
            else (code = 200,
                  emit [HttpDo ''GET'' (tweetURL tweetID),
                        Printf ''Check tweet %s response: HTTP %d - %s''
                          [AStr tweetID, AInt code, AStr body]]
                    (st\<lparr>conn := c\<rparr>))))"

text \<open>Lines 286-290: the pause before the iteration with index \<open>i\<close>.\<close>

definition ratePause :: "nat \<Rightarrow> 'c state \<Rightarrow> 'c state" where
  "ratePause i st =
     (if i > 0 \<and> i mod rateLimit = 0
      then emit [Printf ''Rate limit reached. Waiting for %s before continuing...''
                   [AInt rateLimitWindow],
                 Sleep rateLimitWindow] st
      else st)"

text \<open>
  Lines 299-336: the delete request for a tweet the check found, the count of its result,
  and the delay of 200 ms after a response. A request that cannot be built or sent leaves
  the iteration at once (\<^verbatim>\<open>continue\<close>), without the delay.
\<close>

definition deleteTweet :: "'c env \<Rightarrow> nat \<Rightarrow> TwitterArchiveTweet \<Rightarrow> 'c state \<Rightarrow> 'c state" where
  "deleteTweet env len tweet st =
     (if \<not> http_NewRequest env ''DELETE'' (tweetURL (ID tweet))
      then (emit [Printf ''Error creating request for tweet ID %s: %v'' [AStr (ID tweet), AErr]] st)
             \<lparr>failures := failures st + 1\<rparr>
      else
        (case client_Do env (conn st) ''DELETE'' (tweetURL (ID tweet)) of
          (DoError, c) \<Rightarrow>
            (emit [HttpDo ''DELETE'' (tweetURL (ID tweet)),
                   Printf ''Error deleting tweet ID %s: %v'' [AStr (ID tweet), AErr]]
               (st\<lparr>conn := c\<rparr>))
              \<lparr>failures := failures st + 1\<rparr>
        | (Response code body readErr, c) \<Rightarrow>
            emit [Sleep (200 * Millisecond)]
              (if code \<noteq> 200
               then (emit ([HttpDo ''DELETE'' (tweetURL (ID tweet)),
                            Printf ''Failed to delete tweet ID %s: HTTP %d - %s''
                              [AStr (ID tweet), AInt code, AStr body]]
                           @ (if code = 429
                              then [Printf ''Rate limit exceeded. Waiting for 15 minutes...'' [],
                                    Sleep (15 * Minute)]
                              else []))
                       (st\<lparr>conn := c\<rparr>))
                      \<lparr>failures := failures st + 1\<rparr>
               else (emit [HttpDo ''DELETE'' (tweetURL (ID tweet)),
                           Printf ''Deleted: %d/%d - ID: %s''
                             [AInt (int (success st + 1)), AInt (int len), AStr (ID tweet)]]
                       (st\<lparr>conn := c\<rparr>))
                      \<lparr>success := success st + 1\<rparr>)))"

text \<open>One iteration of the loop of lines 285-337, for the tweet at index \<open>i\<close>.\<close>

definition loopBody :: "'c env \<Rightarrow> nat \<Rightarrow> nat \<Rightarrow> TwitterArchiveTweet \<Rightarrow> 'c state \<Rightarrow> 'c state" where
  "loopBody env len i tweet st =
     (case checkTweetExists env (ID tweet) (ratePause i st) of
       (False, st') \<Rightarrow>
         (emit [Printf ''Tweet already deleted: ID %s'' [AStr (ID tweet)]] st')
           \<lparr>alreadyDeleted := alreadyDeleted st' + 1\<rparr>
     | (True, st') \<Rightarrow> deleteTweet env len tweet st')"

text \<open>\<^verbatim>\<open>for i, tweet := range tweets\<close>: the iterations from index \<open>i\<close> on.\<close>

fun deleteLoop :: "'c env \<Rightarrow> nat \<Rightarrow> nat \<Rightarrow> TwitterArchiveTweet list \<Rightarrow> 'c state \<Rightarrow> 'c state" where
  "deleteLoop env len i [] st = st"
| "deleteLoop env len i (tweet # rest) st =
     deleteLoop env len (i + 1) rest (loopBody env len i tweet st)"

subsection \<open>The command (delete.go, lines 94-356)\<close>

text \<open>Lines 339-355: the summary, and the two notes with their conditions.\<close>

definition summary :: "nat \<Rightarrow> 'c state \<Rightarrow> event list" where
  "summary len st =
     [Printf ''Completed: Successfully deleted %d/%d tweets. Failed: %d, Already deleted: %d''
        [AInt (int (success st)), AInt (int len), AInt (int (failures st)),
         AInt (int (alreadyDeleted st))]]
     @ (if failures st > 0
        then [Printf ''Note: Some tweets may have failed to delete because:'' [],
              Printf ''- They were already deleted'' [],
              Printf ''- They were too old (Twitter API limits deletion of older tweets)'' [],
              Printf ''- API rate limits were reached'' [],
              Printf ''- Your API access level does not allow deletion'' []]
        else [])
     @ (if success st = 0 \<and> failures st > 0
        then [Printf ''API Access Restriction Warning:'' [],
              Printf ''It appears your Twitter API access level may not allow tweet deletion.'' [],
              Printf ''Free tier has very limited access. Consider upgrading to Basic tier ($100/month).'' [],
              Printf ''For more information: https://developer.x.com/en/portal/product'' []]
        else [])"

text \<open>
  Lines 237-356: what the command does with the selection. It displays it; in a dry run
  it returns at line 267; otherwise it reads one line, returns at line 263 unless the line,
  in lower case and trimmed, is \<^verbatim>\<open>y\<close>, and only then sets the counters and runs the loop.
\<close>

definition confirmAndDelete ::
  "'c env \<Rightarrow> flags \<Rightarrow> TwitterArchiveTweet list \<Rightarrow> 'c state \<Rightarrow> outcome \<times> 'c state"
where
  "confirmAndDelete env fl tweets st =
     (let st1 = emit (displayTweets env tweets) st in
      if \<not> dryRun fl
      then
        (let st2 = emit [Printf ''Delete the above %d tweets? [y/N]: '' [AInt (int (length tweets))],
                         ReadStdin] st1
         in if strings_TrimSpace env (strings_ToLower env (stdin_ReadString env)) \<noteq> ''y''
            then (Cancelled, emit [Printf ''Cancelled.'' []] st2)
            else
              (let st3 = emit [Printf ''Checking tweets status and executing deletion...'' []] st2;
                   st4 = deleteLoop env (length tweets) 0 tweets
                           (st3\<lparr>success := 0, failures := 0, alreadyDeleted := 0\<rparr>)
               in (Completed, emit (summary (length tweets) st4) st4)))
      else (DryRun, emit [Printf ''Dry run mode - no tweets will be deleted'' []] st1))"

text \<open>
  \<^verbatim>\<open>runDelete\<close>. The result of \<^verbatim>\<open>os.Stat(archivePath)\<close> is used after the one test
  \<^verbatim>\<open>os.IsNotExist(err)\<close>: with any other error \<^verbatim>\<open>archiveInfo\<close> is nil and line 107 panics.
\<close>

definition runDelete :: "'c env \<Rightarrow> flags \<Rightarrow> 'c \<Rightarrow> outcome \<times> 'c state" where
  "runDelete env fl c =
     (let st0 = \<lparr>conn = c, out = [], success = 0, failures = 0, alreadyDeleted = 0\<rparr> in
      if consumerKey fl = [] \<or> consumerSecret fl = [] \<or> accessToken fl = []
         \<or> accessTokenSecret fl = []
      then (MissingCredentials,
            emit [Printf ''Error: All authentication credentials are required'' []] st0)
      else
        (case os_Stat env (archivePath fl) of
           StatNotExist \<Rightarrow>
             (ArchiveNotExist,
              emit [Printf ''Error: Archive path %s does not exist'' [AStr (archivePath fl)]] st0)
         | StatError \<Rightarrow> (Panic, st0)
         | StatOk isDir \<Rightarrow>
             if \<not> isDir
             then (ArchiveNotDir,
                   emit [Printf ''Error: Archive path %s is not a directory''
                           [AStr (archivePath fl)]] st0)
             else
               (let tweetFiles = findTweetFiles env (archivePath fl) in
                if length tweetFiles = 0
                then (NoDataFiles,
                      emit [Printf ''Error: Could not find tweet data files in the archive'' []] st0)
                else
                  (case readTweets env tweetFiles []
                          (emit [Printf ''Found %d tweet data files in the archive''
                                   [AInt (int (length tweetFiles))]] st0) of
                     (tweets, st1) \<Rightarrow>
                       if length tweets = 0
                       then (NoTweets, emit [Printf ''No tweets found in the archive'' []] st1)
                       else
                         (case sortTweets env (sortOrder fl) tweets
                                 (emit [Printf ''Extracted %d tweets from the archive''
                                          [AInt (int (length tweets))]] st1) of
                            (ordered, st2) \<Rightarrow>
                              (case selectTweets (limit fl) (offset fl) ordered st2 of
                                 (None, st3) \<Rightarrow> (OffsetOutOfRange, st3)
                               | (Some selection, st3) \<Rightarrow>
                                   confirmAndDelete env fl selection st3))))))"

subsection \<open>Reading the event list\<close>

text \<open>The requests sent with \<^verbatim>\<open>client.Do\<close>, in order: method and URL.\<close>

fun httpCalls :: "event list \<Rightarrow> (string \<times> string) list" where
  "httpCalls [] = []"
| "httpCalls (HttpDo method url # es) = (method, url) # httpCalls es"
| "httpCalls (e # es) = httpCalls es"

text \<open>The events that are not console output: requests, sleeps, reads of the input.\<close>

fun isPrintf :: "event \<Rightarrow> bool" where
  "isPrintf (Printf fmt args) = True"
| "isPrintf e = False"

definition effects :: "event list \<Rightarrow> event list" where
  "effects es = filter (\<lambda>e. \<not> isPrintf e) es"


text \<open>A step that sends nothing, sleeps nowhere, reads nothing and counts nothing.\<close>

definition silent :: "'c state \<Rightarrow> 'c state \<Rightarrow> bool" where
  "silent st st' =
     (conn st' = conn st \<and> success st' = success st \<and> failures st' = failures st
      \<and> alreadyDeleted st' = alreadyDeleted st \<and> effects (out st') = effects (out st))"

subsection \<open>What \<^verbatim>\<open>sort.Slice\<close> promises\<close>

text \<open>
  The documentation of \<^verbatim>\<open>sort.Slice\<close>: "Slice sorts the slice x given the provided less
  function. [...] The sort is not guaranteed to be stable: equal elements may be reversed
  from their original order. For a stable sort, use SliceStable." The function is a
  parameter of the model, and \<open>sortsBy srt lt\<close> says of \<open>srt\<close>, at the comparison \<open>lt\<close>,
  what this documentation promises: the result is a permutation of the argument (the
  slice is sorted in place, by swaps), and no element is \<open>lt\<close> an element before it.
\<close>

definition sortsBy :: "(('a \<Rightarrow> 'a \<Rightarrow> bool) \<Rightarrow> 'a list \<Rightarrow> 'a list) \<Rightarrow> ('a \<Rightarrow> 'a \<Rightarrow> bool) \<Rightarrow> bool" where
  "sortsBy srt lt = (\<forall>xs. mset (srt lt xs) = mset xs \<and> sorted_wrt (\<lambda>a b. \<not> lt b a) (srt lt xs))"

subsection \<open>The three locations\<close>

text \<open>
  Names for the three locations of lines 116, 122 and 136, and for the files the second
  one gives (lines 123-132).
\<close>

definition aggregateFile :: "'c env \<Rightarrow> string \<Rightarrow> string" where
  "aggregateFile env path = filepath_Join env [path, ''data'', ''tweets.js'']"

definition shardDir :: "'c env \<Rightarrow> string \<Rightarrow> string" where
  "shardDir env path = filepath_Join env [path, ''data'', ''tweets'']"

definition legacyFile :: "'c env \<Rightarrow> string \<Rightarrow> string" where
  "legacyFile env path = filepath_Join env [path, ''data'', ''tweet.js'']"

definition shardFiles :: "'c env \<Rightarrow> string \<Rightarrow> string list" where
  "shardFiles env path =
     (if statOk (os_Stat env (shardDir env path))
      then (case ioutil_ReadDir env (shardDir env path) of
              None \<Rightarrow> []
            | Some files \<Rightarrow>
                map (\<lambda>(name, isDir). filepath_Join env [shardDir env path, name])
                  (filter (\<lambda>(name, isDir). \<not> isDir \<and> suffix ''.js'' name) files))
      else [])"

subsection \<open>\<^verbatim>\<open>sort.Slice\<close> on a slice of at most 13 elements\<close>

text \<open>
  What \<^verbatim>\<open>sort.Slice\<close> of Go's standard library (package \<^verbatim>\<open>sort\<close>, Go 1.19 and later) does
  on a short slice, function by function. \<^verbatim>\<open>Slice\<close> calls \<^verbatim>\<open>pdqsort_func(data, 0, length,
  bits.Len(length))\<close>. A slice of at most 12 elements is sorted by \<^verbatim>\<open>insertionSort_func\<close>.
  On 13 elements the first round of \<^verbatim>\<open>pdqsort_func\<close> chooses a pivot, returns at once when
  the slice is found in order, and otherwise partitions the slice around the pivot; each
  of the two parts has at most 12 elements and is sorted by \<^verbatim>\<open>insertionSort_func\<close>.
  Indices are natural numbers; \<open>data ! i\<close> is \<^verbatim>\<open>data[i]\<close>, and every index used is in range.
\<close>

text \<open>\<^verbatim>\<open>data.Swap(i, j)\<close>.\<close>

definition swapAt :: "'a list \<Rightarrow> nat \<Rightarrow> nat \<Rightarrow> 'a list" where
  "swapAt data i j = data[i := data ! j, j := data ! i]"

text \<open>
  \<^verbatim>\<open>insertionSort_func\<close>:
  \<^verbatim>\<open>for i := a + 1; i < b; i++ { for j := i; j > a && data.Less(j, j-1); j-- { data.Swap(j, j-1) } }\<close>.
\<close>

function insertionInner :: "('a \<Rightarrow> 'a \<Rightarrow> bool) \<Rightarrow> 'a list \<Rightarrow> nat \<Rightarrow> nat \<Rightarrow> 'a list" where
  "insertionInner lt data a j =
     (if a < j \<and> lt (data ! j) (data ! (j - 1))
      then insertionInner lt (swapAt data j (j - 1)) a (j - 1)
      else data)"
  by pat_completeness auto
termination
  by (relation "measure (\<lambda>(lt, data, a, j). j)") auto

function insertionOuter :: "('a \<Rightarrow> 'a \<Rightarrow> bool) \<Rightarrow> 'a list \<Rightarrow> nat \<Rightarrow> nat \<Rightarrow> nat \<Rightarrow> 'a list" where
  "insertionOuter lt data a b i =
     (if i < b then insertionOuter lt (insertionInner lt data a i) a b (i + 1) else data)"
  by pat_completeness auto
termination
  by (relation "measure (\<lambda>(lt, data, a, b, i). b - i)") auto





text \<open>
  The first loop of \<^verbatim>\<open>partialInsertionSort_func\<close>:
  \<^verbatim>\<open>for i < b && !data.Less(i, i-1) { i++ }\<close>. On a slice of fewer than 50 elements the
  function returns after it: true when \<open>i\<close> has reached \<open>b\<close>, false otherwise, and the
  slice is as it was.
\<close>

function nextDescent :: "('a \<Rightarrow> 'a \<Rightarrow> bool) \<Rightarrow> 'a list \<Rightarrow> nat \<Rightarrow> nat \<Rightarrow> nat" where
  "nextDescent lt data i b =
     (if i < b \<and> \<not> lt (data ! i) (data ! (i - 1)) then nextDescent lt data (i + 1) b else i)"
  by pat_completeness auto
termination
  by (relation "measure (\<lambda>(lt, data, i, b). b - i)") auto

text \<open>
  The two scans of \<^verbatim>\<open>partition_func\<close>: \<^verbatim>\<open>for i <= j && data.Less(i, a) { i++ }\<close> and
  \<^verbatim>\<open>for i <= j && !data.Less(j, a) { j-- }\<close>. In the second, \<open>i\<close> is at least \<open>a + 1\<close>, so
  \<open>j\<close> is positive whenever \<open>i \<le> j\<close>; the test \<open>0 < j\<close> says so for the natural numbers.
\<close>

function scanUp :: "('a \<Rightarrow> 'a \<Rightarrow> bool) \<Rightarrow> 'a list \<Rightarrow> nat \<Rightarrow> nat \<Rightarrow> nat \<Rightarrow> nat" where
  "scanUp lt data a i j =
     (if i \<le> j \<and> lt (data ! i) (data ! a) then scanUp lt data a (i + 1) j else i)"
  by pat_completeness auto
termination
  by (relation "measure (\<lambda>(lt, data, a, i, j). Suc j - i)") auto

function scanDown :: "('a \<Rightarrow> 'a \<Rightarrow> bool) \<Rightarrow> 'a list \<Rightarrow> nat \<Rightarrow> nat \<Rightarrow> nat \<Rightarrow> nat" where
  "scanDown lt data a i j =
     (if i \<le> j \<and> 0 < j \<and> \<not> lt (data ! j) (data ! a) then scanDown lt data a i (j - 1) else j)"
  by pat_completeness auto
termination
  by (relation "measure (\<lambda>(lt, data, a, i, j). j)") auto

declare insertionInner.simps [simp del] insertionOuter.simps [simp del]
  nextDescent.simps [simp del] scanUp.simps [simp del] scanDown.simps [simp del]







subsection \<open>Sample environments\<close>

text \<open>
  Concrete values for the parameters, on which the theorems below are run. \<open>stableSort\<close>
  is an insertion sort that keeps elements that compare equal in their order.
\<close>

fun insertBy :: "('a \<Rightarrow> 'a \<Rightarrow> bool) \<Rightarrow> 'a \<Rightarrow> 'a list \<Rightarrow> 'a list" where
  "insertBy lt x [] = [x]"
| "insertBy lt x (y # ys) = (if lt y x then y # insertBy lt x ys else x # y # ys)"

definition stableSort :: "('a \<Rightarrow> 'a \<Rightarrow> bool) \<Rightarrow> 'a list \<Rightarrow> 'a list" where
  "stableSort lt xs = foldr (insertBy lt) xs []"

fun joinPath :: "string list \<Rightarrow> string" where
  "joinPath [] = []"
| "joinPath [x] = x"
| "joinPath (x # y # ys) = x @ ''/'' @ joinPath (y # ys)"

definition asciiLower :: "char \<Rightarrow> char" where
  "asciiLower c = (if c = CHR ''Y'' then CHR ''y'' else if c = CHR ''N'' then CHR ''n'' else c)"

definition trimSpace :: "string \<Rightarrow> string" where
  "trimSpace s =
     rev (dropWhile (\<lambda>c. c = CHR '' '' \<or> c = CHR 0x0A)
       (rev (dropWhile (\<lambda>c. c = CHR '' '' \<or> c = CHR 0x0A) s)))"

text \<open>
  Six tweets. The first three are those of the specification's scenario (2021-01-01,
  2021-06-01, 2020-01-01). \<open>tweetTie\<close> has the instant of \<open>tweet1\<close>. The timestamp of
  \<open>tweetBad\<close> is not in the layout. The timestamp of \<open>tweetEarly\<close> is in the layout and
  denotes midnight of January 1, year 1, one hour east of UTC: one hour before the zero
  \<^verbatim>\<open>Time\<close>.
\<close>

definition tweet1 :: TwitterArchiveTweet where
  "tweet1 = \<lparr>ID = ''1001'', CreatedAt = ''Fri Jan 01 00:00:00 +0000 2021'',
             Text = ''first'', Retweeted = False\<rparr>"

definition tweet2 :: TwitterArchiveTweet where
  "tweet2 = \<lparr>ID = ''1002'', CreatedAt = ''Tue Jun 01 00:00:00 +0000 2021'',
             Text = ''second'', Retweeted = False\<rparr>"

definition tweet3 :: TwitterArchiveTweet where
  "tweet3 = \<lparr>ID = ''1003'', CreatedAt = ''Wed Jan 01 00:00:00 +0000 2020'',
             Text = ''third'', Retweeted = False\<rparr>"

definition tweetTie :: TwitterArchiveTweet where
  "tweetTie = \<lparr>ID = ''1004'', CreatedAt = ''Fri Jan 01 00:00:00 +0000 2021'',
               Text = ''same second as the first'', Retweeted = False\<rparr>"

definition tweetBad :: TwitterArchiveTweet where
  "tweetBad = \<lparr>ID = ''1005'', CreatedAt = ''2021-01-01'',
               Text = ''timestamp not in the layout'', Retweeted = False\<rparr>"

definition tweetEarly :: TwitterArchiveTweet where
  "tweetEarly = \<lparr>ID = ''1006'', CreatedAt = ''Mon Jan 01 00:00:00 +0100 0001'',
                 Text = ''before the zero time'', Retweeted = False\<rparr>"

text \<open>The instants of the four timestamps that parse, in nanoseconds from the zero \<^verbatim>\<open>Time\<close>.\<close>

definition sampleTimes :: "(string \<times> instant) list" where
  "sampleTimes =
     [(''Fri Jan 01 00:00:00 +0000 2021'', 63745056000 * 1000000000),
      (''Tue Jun 01 00:00:00 +0000 2021'', 63758102400 * 1000000000),
      (''Wed Jan 01 00:00:00 +0000 2020'', 63713433600 * 1000000000),
      (''Mon Jan 01 00:00:00 +0100 0001'', - 3600 * 1000000000)]"

text \<open>
  Three archives. \<^verbatim>\<open>archive\<close> has all three locations: \<^verbatim>\<open>data/tweets.js\<close>, the directory
  \<^verbatim>\<open>data/tweets\<close> (one \<^verbatim>\<open>.js\<close> file, one other file, one directory) and \<^verbatim>\<open>data/tweet.js\<close>.
  \<^verbatim>\<open>old\<close> has \<^verbatim>\<open>data/tweet.js\<close> only. \<^verbatim>\<open>big\<close> has a \<^verbatim>\<open>data/tweets.js\<close> of 101 tweets. The bodies
  of the files are abbreviated to a letter; \<open>sampleDecode\<close> says which tweets each body
  holds.
\<close>

definition sampleFiles :: "(string \<times> string) list" where
  "sampleFiles =
     [(''archive/data/tweets.js'', ''window.YTD.tweets.part0 = [A]''),
      (''archive/data/tweets/part1.js'', ''window.YTD.tweets.part1 = [B]''),
      (''archive/data/tweets/notes.txt'', ''not a data file''),
      (''archive/data/tweet.js'', ''[C]''),
      (''old/data/tweet.js'', ''[C]''),
      (''big/data/tweets.js'', ''window.YTD.tweets.part0 = [D]'')]"

definition sampleDirs :: "(string \<times> (string \<times> bool) list) list" where
  "sampleDirs =
     [(''archive'', [(''data'', True)]),
      (''archive/data'', [(''tweet.js'', False), (''tweets'', True), (''tweets.js'', False)]),
      (''archive/data/tweets'', [(''notes.txt'', False), (''old.js'', True), (''part1.js'', False)]),
      (''archive/data/tweets/old.js'', []),
      (''old'', [(''data'', True)]),
      (''old/data'', [(''tweet.js'', False)]),
      (''big'', [(''data'', True)]),
      (''big/data'', [(''tweets.js'', False)])]"

definition sampleDecode :: "(string \<times> TwitterArchiveTweet list) list" where
  "sampleDecode =
     [(''[A]'', [tweet1, tweet2]), (''[B]'', [tweet3]), (''[C]'', [tweetTie]),
      (''[D]'', replicate 101 tweet1)]"

text \<open>
  The sample environment: the archive above, a stable sort, the answer \<^verbatim>\<open>y\<close> at the prompt,
  and a service that answers every request with status 200; its state counts the requests.
\<close>

definition sampleEnv :: "nat env" where
  "sampleEnv =
     \<lparr>os_Stat = (\<lambda>p. if map_of sampleDirs p \<noteq> None then StatOk True
                      else if map_of sampleFiles p \<noteq> None then StatOk False
                      else StatNotExist),
      ioutil_ReadDir = map_of sampleDirs,
      ioutil_ReadFile = map_of sampleFiles,
      filepath_Join = joinPath,
      json_Unmarshal = map_of sampleDecode,
      time_Parse = map_of sampleTimes,
      sort_Slice = stableSort,
      stdin_ReadString = ''Y'' @ [CHR 0x0A],
      strings_ToLower = map asciiLower,
      strings_TrimSpace = trimSpace,
      http_NewRequest = (\<lambda>method url. True),
      client_Do = (\<lambda>c method url. (Response 200 ''{}'' False, c + 1))\<rparr>"

definition sampleFlags :: flags where
  "sampleFlags =
     \<lparr>consumerKey = ''ck'', consumerSecret = ''cs'', accessToken = ''at'',
      accessTokenSecret = ''ats'', limit = 100, offset = 0, archivePath = ''archive'',
      dryRun = False, sortOrder = ''newest''\<rparr>"

definition sampleState :: "nat state" where
  "sampleState = \<lparr>conn = 0, out = [], success = 0, failures = 0, alreadyDeleted = 0\<rparr>"




text \<open>The same with a service that answers the existence check with 500, and with 404.\<close>

definition serverError :: "nat env" where
  "serverError =
     sampleEnv\<lparr>client_Do := (\<lambda>c method url.
        (if method = ''GET'' then Response 500 ''Internal Server Error'' False
         else Response 200 ''{}'' False, c + 1))\<rparr>"

definition notFound :: "nat env" where
  "notFound =
     sampleEnv\<lparr>client_Do := (\<lambda>c method url.
        (if method = ''GET'' then Response 404 ''Not Found'' False
         else Response 200 ''{}'' False, c + 1))\<rparr>"

section \<open>Properties\<close>

subsection \<open>The counters\<close>

lemma checkTweetExists_frame:
  "success (snd (checkTweetExists env tid st)) = success st
   \<and> failures (snd (checkTweetExists env tid st)) = failures st
   \<and> alreadyDeleted (snd (checkTweetExists env tid st)) = alreadyDeleted st"
  by (simp add: checkTweetExists_def emit_def split: prod.splits http_result.splits)

lemma ratePause_frame:
  "success (ratePause i st) = success st \<and> failures (ratePause i st) = failures st
   \<and> alreadyDeleted (ratePause i st) = alreadyDeleted st \<and> conn (ratePause i st) = conn st"
  by (simp add: ratePause_def emit_def)

lemma deleteTweet_counters:
  "(success (deleteTweet env len tweet st), failures (deleteTweet env len tweet st),
      alreadyDeleted (deleteTweet env len tweet st))
     \<in> {(success st + 1, failures st, alreadyDeleted st),
        (success st, failures st + 1, alreadyDeleted st)}"
  by (simp add: deleteTweet_def emit_def split: prod.splits http_result.splits)

lemma loopBody_cases:
  "loopBody env len i tweet st =
     (if fst (checkTweetExists env (ID tweet) (ratePause i st))
      then deleteTweet env len tweet (snd (checkTweetExists env (ID tweet) (ratePause i st)))
      else (emit [Printf ''Tweet already deleted: ID %s'' [AStr (ID tweet)]]
              (snd (checkTweetExists env (ID tweet) (ratePause i st))))
           \<lparr>alreadyDeleted :=
              alreadyDeleted (snd (checkTweetExists env (ID tweet) (ratePause i st))) + 1\<rparr>)"
  by (simp add: loopBody_def split: prod.splits bool.splits)

lemma loopBody_one_counter:
  "(success (loopBody env len i tweet st), failures (loopBody env len i tweet st),
      alreadyDeleted (loopBody env len i tweet st))
     \<in> {(success st + 1, failures st, alreadyDeleted st),
        (success st, failures st + 1, alreadyDeleted st),
        (success st, failures st, alreadyDeleted st + 1)}"
proof (cases "fst (checkTweetExists env (ID tweet) (ratePause i st))")
  case True
  then show ?thesis
    using deleteTweet_counters [of env len tweet "snd (checkTweetExists env (ID tweet) (ratePause i st))"]
      checkTweetExists_frame [of env "ID tweet" "ratePause i st"] ratePause_frame [of i st]
    by (auto simp: loopBody_cases)
next
  case False
  then show ?thesis
    using checkTweetExists_frame [of env "ID tweet" "ratePause i st"] ratePause_frame [of i st]
    by (simp add: loopBody_cases emit_def)
qed

lemma loopBody_counts:
  "success (loopBody env len i tweet st) + failures (loopBody env len i tweet st)
     + alreadyDeleted (loopBody env len i tweet st)
   = success st + failures st + alreadyDeleted st + 1"
  using loopBody_one_counter [of env len i tweet st] by auto

lemma deleteLoop_counts:
  "success (deleteLoop env len i tweets st) + failures (deleteLoop env len i tweets st)
     + alreadyDeleted (deleteLoop env len i tweets st)
   = success st + failures st + alreadyDeleted st + length tweets"
proof (induction tweets arbitrary: i st)
  case Nil
  show ?case by simp
next
  case (Cons tweet rest)
  show ?case
    using Cons.IH [of "i + 1" "loopBody env len i tweet st"] loopBody_counts [of env len i tweet st]
    by simp
qed

text \<open>
  Claim C10. Every iteration of the deletion loop adds one to exactly one of the three
  counters and leaves the other two as they were; so after the loop has run over the
  selection, from the counters set to zero at lines 277-279, the counters add up to the
  number of tweets of the selection.
\<close>

theorem C10_counters_add_up:
  "(success (loopBody env len i tweet st), failures (loopBody env len i tweet st),
      alreadyDeleted (loopBody env len i tweet st))
     \<in> {(success st + 1, failures st, alreadyDeleted st),
        (success st, failures st + 1, alreadyDeleted st),
        (success st, failures st, alreadyDeleted st + 1)}
   \<and> success (deleteLoop env (length tweets) 0 tweets
         (st\<lparr>success := 0, failures := 0, alreadyDeleted := 0\<rparr>))
     + failures (deleteLoop env (length tweets) 0 tweets
         (st\<lparr>success := 0, failures := 0, alreadyDeleted := 0\<rparr>))
     + alreadyDeleted (deleteLoop env (length tweets) 0 tweets
         (st\<lparr>success := 0, failures := 0, alreadyDeleted := 0\<rparr>))
     = length tweets"
  using loopBody_one_counter [of env len i tweet st]
    deleteLoop_counts [of env "length tweets" 0 tweets
      "st\<lparr>success := 0, failures := 0, alreadyDeleted := 0\<rparr>"]
  by simp

text \<open>The theorem on a pass over two tweets of the sample.\<close>

theorem C10_counters_add_up_witness:
  "success (deleteLoop sampleEnv 2 0 [tweet1, tweet2] sampleState)
   + failures (deleteLoop sampleEnv 2 0 [tweet1, tweet2] sampleState)
   + alreadyDeleted (deleteLoop sampleEnv 2 0 [tweet1, tweet2] sampleState) = 2"
  using C10_counters_add_up [where env = sampleEnv and tweets = "[tweet1, tweet2]"
      and st = sampleState and len = 2 and i = 0 and tweet = tweet1]
  by (simp add: sampleState_def numeral_2_eq_2)

subsection \<open>The events of a step\<close>

lemma httpCalls_append: "httpCalls (xs @ ys) = httpCalls xs @ httpCalls ys"
  by (induction xs rule: httpCalls.induct) simp_all

lemma effects_append: "effects (xs @ ys) = effects xs @ effects ys"
  by (simp add: effects_def)


lemma httpCalls_effects: "httpCalls (effects es) = httpCalls es"
  by (induction es rule: httpCalls.induct) (simp_all add: effects_def)

lemma no_effects_no_calls: "effects es = [] \<Longrightarrow> httpCalls es = []"
  using httpCalls_effects [of es] by simp

subsection \<open>The existence check decides\<close>

lemma checkTweetExists_fst:
  "fst (checkTweetExists env tid st) =
     (http_NewRequest env ''GET'' (tweetURL tid)
      \<and> (\<exists>body c. client_Do env (conn st) ''GET'' (tweetURL tid) = (Response 200 body False, c)))"
  by (auto simp: checkTweetExists_def split: prod.splits http_result.splits)

lemma checkTweetExists_calls:
  "httpCalls (out (snd (checkTweetExists env tid st))) =
     httpCalls (out st) @ (if http_NewRequest env ''GET'' (tweetURL tid) then [(''GET'', tweetURL tid)] else [])"
  by (simp add: checkTweetExists_def emit_def httpCalls_append split: prod.splits http_result.splits)

lemma deleteTweet_calls:
  "httpCalls (out (deleteTweet env len tweet st)) =
     httpCalls (out st) @ (if http_NewRequest env ''DELETE'' (tweetURL (ID tweet))
                           then [(''DELETE'', tweetURL (ID tweet))] else [])"
  by (simp add: deleteTweet_def emit_def httpCalls_append split: prod.splits http_result.splits)

lemma ratePause_calls: "httpCalls (out (ratePause i st)) = httpCalls (out st)"
  by (simp add: ratePause_def emit_def httpCalls_append)

lemma deleteTweet_alreadyDeleted:
  "alreadyDeleted (deleteTweet env len tweet st) = alreadyDeleted st"
  by (simp add: deleteTweet_def emit_def split: prod.splits http_result.splits)

text \<open>
  Claim C1, as amended. The existence check answers "exists" exactly when the request
  could be built and was answered with status 200 and a body read in full. With every
  other answer (404, any other status, an error of the transport or of the read) the
  iteration counts the tweet as already deleted, leaves the other two counters alone and
  sends no delete request. With 200 the iteration goes on to the delete request, which is
  sent whenever it can be built, and \<^verbatim>\<open>alreadyDeleted\<close> is not touched.
\<close>

theorem C1_check_is_status_200:
  "(fst (checkTweetExists env (ID tweet) (ratePause i st)) =
      (http_NewRequest env ''GET'' (tweetURL (ID tweet))
       \<and> (\<exists>body c. client_Do env (conn st) ''GET'' (tweetURL (ID tweet))
                      = (Response 200 body False, c))))
   \<and> (\<not> fst (checkTweetExists env (ID tweet) (ratePause i st)) \<longrightarrow>
        alreadyDeleted (loopBody env len i tweet st) = alreadyDeleted st + 1
        \<and> success (loopBody env len i tweet st) = success st
        \<and> failures (loopBody env len i tweet st) = failures st
        \<and> httpCalls (out (loopBody env len i tweet st)) =
            httpCalls (out st) @ (if http_NewRequest env ''GET'' (tweetURL (ID tweet))
                                  then [(''GET'', tweetURL (ID tweet))] else []))
   \<and> (fst (checkTweetExists env (ID tweet) (ratePause i st)) \<longrightarrow>
        loopBody env len i tweet st =
          deleteTweet env len tweet (snd (checkTweetExists env (ID tweet) (ratePause i st)))
        \<and> alreadyDeleted (loopBody env len i tweet st) = alreadyDeleted st
        \<and> httpCalls (out (loopBody env len i tweet st)) =
            httpCalls (out st) @ [(''GET'', tweetURL (ID tweet))]
            @ (if http_NewRequest env ''DELETE'' (tweetURL (ID tweet))
               then [(''DELETE'', tweetURL (ID tweet))] else []))"
proof (intro conjI impI)
  let ?chk = "checkTweetExists env (ID tweet) (ratePause i st)"
  show "fst ?chk = (http_NewRequest env ''GET'' (tweetURL (ID tweet))
       \<and> (\<exists>body c. client_Do env (conn st) ''GET'' (tweetURL (ID tweet))
                      = (Response 200 body False, c)))"
    by (simp add: checkTweetExists_fst ratePause_frame)
  {
    assume no: "\<not> fst ?chk"
    show "alreadyDeleted (loopBody env len i tweet st) = alreadyDeleted st + 1"
      using no checkTweetExists_frame [of env "ID tweet" "ratePause i st"] ratePause_frame [of i st]
      by (simp add: loopBody_cases emit_def)
    show "success (loopBody env len i tweet st) = success st"
      using no checkTweetExists_frame [of env "ID tweet" "ratePause i st"] ratePause_frame [of i st]
      by (simp add: loopBody_cases emit_def)
    show "failures (loopBody env len i tweet st) = failures st"
      using no checkTweetExists_frame [of env "ID tweet" "ratePause i st"] ratePause_frame [of i st]
      by (simp add: loopBody_cases emit_def)
    show "httpCalls (out (loopBody env len i tweet st)) =
            httpCalls (out st) @ (if http_NewRequest env ''GET'' (tweetURL (ID tweet))
                                  then [(''GET'', tweetURL (ID tweet))] else [])"
      using no
      by (simp add: loopBody_cases emit_def httpCalls_append checkTweetExists_calls ratePause_calls)
  }
  {
    assume yes: "fst ?chk"
    then have req: "http_NewRequest env ''GET'' (tweetURL (ID tweet))"
      by (simp add: checkTweetExists_fst)
    show "loopBody env len i tweet st = deleteTweet env len tweet (snd ?chk)"
      using yes by (simp add: loopBody_cases)
    show "alreadyDeleted (loopBody env len i tweet st) = alreadyDeleted st"
      using yes checkTweetExists_frame [of env "ID tweet" "ratePause i st"] ratePause_frame [of i st]
      by (simp add: loopBody_cases deleteTweet_alreadyDeleted)
    show "httpCalls (out (loopBody env len i tweet st)) =
            httpCalls (out st) @ [(''GET'', tweetURL (ID tweet))]
            @ (if http_NewRequest env ''DELETE'' (tweetURL (ID tweet))
               then [(''DELETE'', tweetURL (ID tweet))] else [])"
      using yes req
      by (simp add: loopBody_cases deleteTweet_calls checkTweetExists_calls ratePause_calls)
  }
qed

lemma sample_check_evals:
  "\<not> fst (checkTweetExists notFound (ID tweet1) (ratePause 0 sampleState))"
  "fst (checkTweetExists sampleEnv (ID tweet1) (ratePause 0 sampleState))"
  by (simp_all add: checkTweetExists_def ratePause_def notFound_def sampleEnv_def sampleState_def)

text \<open>
  The theorem at two services: one answers the check with 404, the other with 200.
\<close>

theorem C1_check_is_status_200_witness:
  "alreadyDeleted (loopBody notFound 1 0 tweet1 sampleState) = 1
   \<and> httpCalls (out (loopBody notFound 1 0 tweet1 sampleState))
       = [(''GET'', ''https://api.twitter.com/2/tweets/1001'')]
   \<and> httpCalls (out (loopBody sampleEnv 1 0 tweet1 sampleState))
       = [(''GET'', ''https://api.twitter.com/2/tweets/1001''),
          (''DELETE'', ''https://api.twitter.com/2/tweets/1001'')]"
proof -
  have no: "\<not> fst (checkTweetExists notFound (ID tweet1) (ratePause 0 sampleState))"
    and yes: "fst (checkTweetExists sampleEnv (ID tweet1) (ratePause 0 sampleState))"
    by (rule sample_check_evals)+
  have req: "http_NewRequest notFound ''GET'' (tweetURL (ID tweet1))"
    "http_NewRequest sampleEnv ''DELETE'' (tweetURL (ID tweet1))"
    by (simp_all add: notFound_def sampleEnv_def)
  have url: "tweetURL (ID tweet1) = ''https://api.twitter.com/2/tweets/1001''"
    by (simp add: tweetURL_def tweet1_def)
  have start: "alreadyDeleted sampleState = 0" "httpCalls (out sampleState) = []"
    by (simp_all add: sampleState_def)
  have "alreadyDeleted (loopBody notFound 1 0 tweet1 sampleState) = alreadyDeleted sampleState + 1
        \<and> httpCalls (out (loopBody notFound 1 0 tweet1 sampleState)) =
            httpCalls (out sampleState) @ (if http_NewRequest notFound ''GET'' (tweetURL (ID tweet1))
                                  then [(''GET'', tweetURL (ID tweet1))] else [])"
    using C1_check_is_status_200 [where env = notFound and tweet = tweet1 and i = 0
      and st = sampleState and len = 1] no by blast
  moreover have "httpCalls (out (loopBody sampleEnv 1 0 tweet1 sampleState)) =
            httpCalls (out sampleState) @ [(''GET'', tweetURL (ID tweet1))]
            @ (if http_NewRequest sampleEnv ''DELETE'' (tweetURL (ID tweet1))
               then [(''DELETE'', tweetURL (ID tweet1))] else [])"
    using C1_check_is_status_200 [where env = sampleEnv and tweet = tweet1 and i = 0
      and st = sampleState and len = 1] yes by blast
  ultimately show ?thesis
    using req by (simp add: url start)
qed

text \<open>
  Claim C1 as stated fails: the service answers the existence check with status 500,
  which is neither success nor "not found". The iteration counts the tweet as already
  deleted, counts no failure, and the GET is the only request: no delete is attempted.
\<close>

theorem C1_server_error_counted_as_deleted:
  "alreadyDeleted (loopBody serverError 1 0 tweet1 sampleState) = 1
   \<and> failures (loopBody serverError 1 0 tweet1 sampleState) = 0
   \<and> success (loopBody serverError 1 0 tweet1 sampleState) = 0
   \<and> httpCalls (out (loopBody serverError 1 0 tweet1 sampleState))
       = [(''GET'', ''https://api.twitter.com/2/tweets/1001'')]"
  by (simp add: loopBody_def checkTweetExists_def ratePause_def emit_def serverError_def
      sampleEnv_def sampleState_def tweet1_def tweetURL_def)

subsection \<open>The pause for the rate limit\<close>












subsection \<open>The dry run\<close>

lemma silent_refl: "silent st st"
  by (simp add: silent_def)

lemma silent_trans: "silent a b \<Longrightarrow> silent b c \<Longrightarrow> silent a c"
  by (simp add: silent_def)

lemma silent_emit: "effects es = [] \<Longrightarrow> silent st (emit es st)"
  by (simp add: silent_def emit_def effects_append)

lemma silent_then_emit: "silent a b \<Longrightarrow> effects es = [] \<Longrightarrow> silent a (emit es b)"
  by (simp add: silent_def emit_def effects_append)

lemma readTweetFile_effects: "effects (fst (readTweetFile env f)) = []"
  by (simp add: readTweetFile_def effects_def split: option.splits)

lemma readTweets_silent: "silent st (snd (readTweets env files tweets st))"
proof (induction files arbitrary: tweets st)
  case Nil
  show ?case by (simp add: silent_refl)
next
  case (Cons f files)
  obtain es found where rf: "readTweetFile env f = (es, found)"
    by (cases "readTweetFile env f")
  have "effects es = []"
    using readTweetFile_effects [of env f] rf by simp
  then have "silent st (emit es st)" by (rule silent_emit)
  moreover have "silent (emit es st) (snd (readTweets env files (tweets @ found) (emit es st)))"
    by (rule Cons.IH)
  ultimately show ?case using rf by (simp add: silent_trans)
qed

lemma sortTweets_silent: "silent st (snd (sortTweets env order tweets st))"
  by (simp add: sortTweets_def silent_emit effects_def)

lemma selectTweets_silent: "silent st (snd (selectTweets lim off tweets st))"
  by (simp add: selectTweets_def silent_def emit_def effects_def Let_def split: prod.splits)

lemma displayTweets_effects: "effects (displayTweets env tweets) = []"
proof -
  have "effects (map (displayLine env) ps) = []" for ps
    by (induction ps) (simp_all add: displayLine_def effects_def split: prod.splits)
  then show ?thesis by (simp add: displayTweets_def effects_append) (simp add: effects_def)
qed

lemma confirmAndDelete_dry:
  "dryRun fl \<Longrightarrow>
     confirmAndDelete env fl tweets st =
       (DryRun, emit (displayTweets env tweets
                      @ [Printf ''Dry run mode - no tweets will be deleted'' []]) st)"
  by (simp add: confirmAndDelete_def Let_def emit_def)

lemma confirmAndDelete_dry_silent:
  "dryRun fl \<Longrightarrow> silent st (snd (confirmAndDelete env fl tweets st))"
  by (simp add: confirmAndDelete_dry silent_def emit_def effects_append displayTweets_effects)
     (simp add: effects_def)

lemma runDelete_dry:
  assumes "dryRun fl"
  shows "fst (runDelete env fl c) \<noteq> Completed
       \<and> silent \<lparr>conn = c, out = [], success = 0, failures = 0, alreadyDeleted = 0\<rparr>
           (snd (runDelete env fl c))"
proof -
  let ?st0 = "\<lparr>conn = c, out = [], success = 0, failures = 0, alreadyDeleted = 0\<rparr>"
  let ?files = "findTweetFiles env (archivePath fl)"
  let ?st0' = "emit [Printf ''Found %d tweet data files in the archive''
                                   [AInt (int (length ?files))]] ?st0"
  obtain tweets st1 where rd: "readTweets env ?files [] ?st0' = (tweets, st1)"
    by (cases "readTweets env ?files [] ?st0'")
  let ?st1' = "emit [Printf ''Extracted %d tweets from the archive''
                                          [AInt (int (length tweets))]] st1"
  obtain ordered st2 where so: "sortTweets env (sortOrder fl) tweets ?st1' = (ordered, st2)"
    by (cases "sortTweets env (sortOrder fl) tweets ?st1'")
  obtain sel st3 where se: "selectTweets (limit fl) (offset fl) ordered st2 = (sel, st3)"
    by (cases "selectTweets (limit fl) (offset fl) ordered st2")
  have pr: "effects [Printf fmt args] = []" for fmt args
    by (simp add: effects_def)
  have "silent ?st0 ?st0'" by (simp add: silent_emit pr)
  moreover have "silent ?st0' st1"
    using readTweets_silent [of ?st0' env ?files "[]"] rd by simp
  ultimately have s1: "silent ?st0 st1" by (rule silent_trans)
  have "silent st1 ?st1'" by (simp add: silent_emit pr)
  moreover have "silent ?st1' st2"
    using sortTweets_silent [of ?st1' env "sortOrder fl" tweets] so by simp
  ultimately have s2: "silent ?st0 st2" using s1 by (blast intro: silent_trans)
  have "silent st2 st3"
    using selectTweets_silent [of st2 "limit fl" "offset fl" ordered] se by simp
  then have s3: "silent ?st0 st3" using s2 by (blast intro: silent_trans)
  have s4: "silent ?st0 (snd (confirmAndDelete env fl x st3))" for x
    using confirmAndDelete_dry_silent [OF assms, of st3 env x] s3 by (blast intro: silent_trans)
  have s5: "fst (confirmAndDelete env fl x st3) \<noteq> Completed" for x
    using assms by (simp add: confirmAndDelete_dry)
  show ?thesis
    using rd so se s1 s3 s4 s5
    by (simp add: runDelete_def Let_def silent_emit silent_refl silent_then_emit pr
        split: stat_result.splits option.splits)
qed

text \<open>
  Claim C2. In a dry run the command, given any selection, displays it, prints the
  dry-run line and returns: the loop is not entered. Over the whole run the outcome is
  never \<open>Completed\<close>, the three counters are zero, no request is sent (so no delete
  call), the state of the remote service is the one the run started with, and console
  output is the only kind of event.
\<close>

theorem C2_dry_run_deletes_nothing:
  assumes "dryRun fl"
  shows "confirmAndDelete env fl tweets st =
           (DryRun, emit (displayTweets env tweets
                          @ [Printf ''Dry run mode - no tweets will be deleted'' []]) st)
       \<and> fst (runDelete env fl c) \<noteq> Completed
       \<and> success (snd (runDelete env fl c)) = 0
       \<and> failures (snd (runDelete env fl c)) = 0
       \<and> alreadyDeleted (snd (runDelete env fl c)) = 0
       \<and> httpCalls (out (snd (runDelete env fl c))) = []
       \<and> effects (out (snd (runDelete env fl c))) = []
       \<and> conn (snd (runDelete env fl c)) = c"
proof -
  have e: "effects (out (snd (runDelete env fl c))) = []"
    using runDelete_dry [OF assms, of env c] by (simp add: silent_def effects_def)
  show ?thesis
    using runDelete_dry [OF assms, of env c] confirmAndDelete_dry [OF assms, of env tweets st]
      e no_effects_no_calls [OF e]
    by (simp add: silent_def)
qed

lemma sample_dry_run:
  "fst (runDelete sampleEnv (sampleFlags\<lparr>dryRun := True\<rparr>) 0) = DryRun"
  by (simp add: runDelete_def sampleEnv_def sampleFlags_def findTweetFiles_def statOk_def
     sampleDirs_def sampleFiles_def sampleDecode_def readTweetFile_def sortTweets_def selectTweets_def
     confirmAndDelete_def Let_def stableSort_def newestFirst_def parsedTime_def sampleTimes_def
     tweet1_def tweet2_def tweet3_def emit_def suffix_to_prefix)

text \<open>
  The theorem on the sample archive: the run reaches the selection, ends as a dry run
  and has sent nothing.
\<close>

theorem C2_dry_run_deletes_nothing_witness:
  "dryRun (sampleFlags\<lparr>dryRun := True\<rparr>)
   \<and> fst (runDelete sampleEnv (sampleFlags\<lparr>dryRun := True\<rparr>) 0) = DryRun
   \<and> fst (confirmAndDelete sampleEnv (sampleFlags\<lparr>dryRun := True\<rparr>) [tweet2, tweet1] sampleState)
       = DryRun
   \<and> success (snd (runDelete sampleEnv (sampleFlags\<lparr>dryRun := True\<rparr>) 0)) = 0
   \<and> httpCalls (out (snd (runDelete sampleEnv (sampleFlags\<lparr>dryRun := True\<rparr>) 0))) = []
   \<and> conn (snd (runDelete sampleEnv (sampleFlags\<lparr>dryRun := True\<rparr>) 0)) = 0"
  using C2_dry_run_deletes_nothing [where fl = "sampleFlags\<lparr>dryRun := True\<rparr>"
      and env = sampleEnv and tweets = "[tweet2, tweet1]" and st = sampleState and c = 0]
    sample_dry_run
  by simp

text \<open>On the same archive, without the dry run, the three tweets are deleted.\<close>

lemma sample_run_deletes:
  "fst (runDelete sampleEnv sampleFlags 0) = Completed
   \<and> success (snd (runDelete sampleEnv sampleFlags 0)) = 3
   \<and> httpCalls (out (snd (runDelete sampleEnv sampleFlags 0)))
       = [(''GET'', ''https://api.twitter.com/2/tweets/1002''),
          (''DELETE'', ''https://api.twitter.com/2/tweets/1002''),
          (''GET'', ''https://api.twitter.com/2/tweets/1001''),
          (''DELETE'', ''https://api.twitter.com/2/tweets/1001''),
          (''GET'', ''https://api.twitter.com/2/tweets/1003''),
          (''DELETE'', ''https://api.twitter.com/2/tweets/1003'')]"
  by (simp add: runDelete_def sampleEnv_def sampleFlags_def findTweetFiles_def statOk_def
     sampleDirs_def sampleFiles_def sampleDecode_def readTweetFile_def sortTweets_def selectTweets_def
     confirmAndDelete_def Let_def stableSort_def newestFirst_def parsedTime_def sampleTimes_def
     tweet1_def tweet2_def tweet3_def emit_def suffix_to_prefix displayTweets_def displayLine_def
     enumerate_eq_zip loopBody_def checkTweetExists_def deleteTweet_def ratePause_def tweetURL_def
     summary_def asciiLower_def trimSpace_def rateLimit_def)
subsection \<open>The files of the archive\<close>

lemma findTweetFiles_eq:
  "findTweetFiles env path =
     (let found = (if statOk (os_Stat env (aggregateFile env path)) then [aggregateFile env path] else [])
                  @ shardFiles env path
      in if found = [] then (if statOk (os_Stat env (legacyFile env path)) then [legacyFile env path] else [])
         else found)"
  by (simp add: findTweetFiles_def aggregateFile_def legacyFile_def shardFiles_def shardDir_def Let_def
      split: option.splits)

lemma readTweets_concat:
  "fst (readTweets env files tweets st) = tweets @ concat (map (\<lambda>f. snd (readTweetFile env f)) files)"
proof (induction files arbitrary: tweets st)
  case Nil
  show ?case by simp
next
  case (Cons f files)
  obtain es found where rf: "readTweetFile env f = (es, found)"
    by (cases "readTweetFile env f")
  show ?case
    using Cons.IH [of "tweets @ found" "emit es st"] rf by simp
qed

text \<open>
  Claim C8, as amended. The aggregate file, when it exists, is the first data file, and
  the \<^verbatim>\<open>.js\<close> files of the shard directory follow it: both locations are read. Without the
  aggregate file the shard files are the data files. The legacy file is the data file
  only when neither of the other two locations gave a file. The tweets read are those of
  the data files, file after file in that order.
\<close>

theorem C8_aggregate_and_shards_then_legacy:
  "(statOk (os_Stat env (aggregateFile env path)) \<longrightarrow>
      findTweetFiles env path = aggregateFile env path # shardFiles env path)
   \<and> (\<not> statOk (os_Stat env (aggregateFile env path)) \<longrightarrow> shardFiles env path \<noteq> [] \<longrightarrow>
      findTweetFiles env path = shardFiles env path)
   \<and> (\<not> statOk (os_Stat env (aggregateFile env path)) \<longrightarrow> shardFiles env path = [] \<longrightarrow>
      findTweetFiles env path =
        (if statOk (os_Stat env (legacyFile env path)) then [legacyFile env path] else []))
   \<and> fst (readTweets env (findTweetFiles env path) [] st) =
       concat (map (\<lambda>f. snd (readTweetFile env f)) (findTweetFiles env path))"
  by (simp add: findTweetFiles_eq readTweets_concat Let_def)

lemma sample_locations:
  "aggregateFile sampleEnv ''archive'' = ''archive/data/tweets.js''"
  "shardFiles sampleEnv ''archive'' = [''archive/data/tweets/part1.js'']"
  "legacyFile sampleEnv ''archive'' = ''archive/data/tweet.js''"
  "aggregateFile sampleEnv ''old'' = ''old/data/tweets.js''"
  "shardFiles sampleEnv ''old'' = []"
  "legacyFile sampleEnv ''old'' = ''old/data/tweet.js''"
  by (simp_all add: aggregateFile_def shardFiles_def shardDir_def legacyFile_def sampleEnv_def
      sampleDirs_def sampleFiles_def statOk_def suffix_to_prefix)

lemma sample_stats:
  "statOk (os_Stat sampleEnv ''archive/data/tweets.js'')"
  "statOk (os_Stat sampleEnv ''archive/data/tweet.js'')"
  "\<not> statOk (os_Stat sampleEnv ''old/data/tweets.js'')"
  "statOk (os_Stat sampleEnv ''old/data/tweet.js'')"
  by (simp_all add: sampleEnv_def sampleDirs_def sampleFiles_def statOk_def)

text \<open>The theorem on the archive with all three locations and on the one with the legacy file only.\<close>

theorem C8_aggregate_and_shards_then_legacy_witness:
  "findTweetFiles sampleEnv ''archive'' = [''archive/data/tweets.js'', ''archive/data/tweets/part1.js'']
   \<and> findTweetFiles sampleEnv ''old'' = [''old/data/tweet.js'']"
  using C8_aggregate_and_shards_then_legacy [where env = sampleEnv and path = "''archive''" and st = sampleState]
    C8_aggregate_and_shards_then_legacy [where env = sampleEnv and path = "''old''" and st = sampleState]
  by (simp add: sample_locations sample_stats)

text \<open>
  Claim C8 as stated fails: in the sample archive the aggregate file exists, the first
  location of the order, and the shard directory, a later location, still contributes:
  its file is read and its tweet is the third of the tweets read. (The legacy file,
  which exists too, is not read.)
\<close>

theorem C8_shards_read_after_aggregate:
  "statOk (os_Stat sampleEnv (aggregateFile sampleEnv ''archive''))
   \<and> findTweetFiles sampleEnv ''archive'' = [''archive/data/tweets.js'', ''archive/data/tweets/part1.js'']
   \<and> snd (readTweetFile sampleEnv ''archive/data/tweets/part1.js'') = [tweet3]
   \<and> fst (readTweets sampleEnv (findTweetFiles sampleEnv ''archive'') [] sampleState)
       = [tweet1, tweet2, tweet3]"
  by (simp add: findTweetFiles_eq sample_locations sample_stats)
     (simp add: readTweetFile_def sampleEnv_def sampleFiles_def sampleDecode_def)


lemma sample_root:
  "os_Stat sampleEnv ''archive'' = StatOk True" "os_Stat sampleEnv ''big'' = StatOk True"
  by (simp_all add: sampleEnv_def sampleDirs_def)

lemma sample_files:
  "findTweetFiles sampleEnv ''archive'' = [''archive/data/tweets.js'', ''archive/data/tweets/part1.js'']"
  by (simp add: findTweetFiles_eq sample_locations sample_stats)

lemma sample_files_big: "findTweetFiles sampleEnv ''big'' = [''big/data/tweets.js'']"
  by (simp add: findTweetFiles_eq aggregateFile_def shardFiles_def shardDir_def sampleEnv_def
      sampleDirs_def sampleFiles_def statOk_def)

lemma sample_read:
  "readTweetFile sampleEnv ''archive/data/tweets.js''
     = ([Printf ''Reading %s...'' [AStr ''archive/data/tweets.js'']], [tweet1, tweet2])"
  "readTweetFile sampleEnv ''archive/data/tweets/part1.js''
     = ([Printf ''Reading %s...'' [AStr ''archive/data/tweets/part1.js'']], [tweet3])"
  "readTweetFile sampleEnv ''big/data/tweets.js''
     = ([Printf ''Reading %s...'' [AStr ''big/data/tweets.js'']], replicate 101 tweet1)"
  by (simp_all add: readTweetFile_def sampleEnv_def sampleFiles_def sampleDecode_def)

subsection \<open>Offset and limit\<close>

lemma selectTweets_range:
  "0 < lim \<Longrightarrow> 0 < off \<Longrightarrow> int (length tweets) \<le> off \<Longrightarrow>
     selectTweets lim off tweets st =
       (None, emit [Printf ''Offset %d is greater than the number of tweets (%d)''
                      [AInt off, AInt (int (length tweets))]] st)"
  by (simp add: selectTweets_def)

lemma selectTweets_slice:
  "0 < lim \<Longrightarrow> off < int (length tweets) \<Longrightarrow>
     fst (selectTweets lim off tweets st) = Some (take (nat lim) (drop (nat off) tweets))"
  by (auto simp: selectTweets_def Let_def split: prod.splits)

text \<open>
  Claim C3. The Selector is given a positive limit, and the selection of lines 218-235 is
  reached with at least one tweet (line 191 returns otherwise). For every such list and
  every offset: an offset at or beyond the number of tweets prints the range message and
  ends the selection with no tweets (\<open>None\<close>, the \<^verbatim>\<open>return\<close> of line 224, which
  \<open>runDelete\<close> turns into the outcome \<open>OffsetOutOfRange\<close> without displaying or deleting
  anything); a smaller offset is applied first and the limit after it.
\<close>

theorem C3_offset_range_error_then_limit:
  assumes "0 < lim" and "tweets \<noteq> []"
  shows "(int (length tweets) \<le> off \<longrightarrow>
            selectTweets lim off tweets st =
              (None, emit [Printf ''Offset %d is greater than the number of tweets (%d)''
                             [AInt off, AInt (int (length tweets))]] st))
       \<and> (off < int (length tweets) \<longrightarrow>
            fst (selectTweets lim off tweets st) = Some (take (nat lim) (drop (nat off) tweets)))"
proof (intro conjI impI)
  assume big: "int (length tweets) \<le> off"
  have "0 < off" using assms(2) big by (cases tweets) simp_all
  then show "selectTweets lim off tweets st =
              (None, emit [Printf ''Offset %d is greater than the number of tweets (%d)''
                             [AInt off, AInt (int (length tweets))]] st)"
    using assms(1) big by (simp add: selectTweets_range)
next
  assume "off < int (length tweets)"
  then show "fst (selectTweets lim off tweets st) = Some (take (nat lim) (drop (nat off) tweets))"
    using assms(1) by (simp add: selectTweets_slice)
qed

text \<open>
  The theorem on the three tweets of the scenario, in the order \<open>oldest\<close> gives them:
  offsets 3 and 5 are out of range; offset 1 and limit 1 select the second. On the sample
  archive, whose three tweets are read in the order of the files, the run with offset 3
  ends there, with no request sent.
\<close>

theorem C3_offset_range_error_then_limit_witness:
  "fst (selectTweets 2 3 [tweet3, tweet1, tweet2] sampleState) = None
   \<and> fst (selectTweets 1 5 [tweet3, tweet1, tweet2] sampleState) = None
   \<and> fst (selectTweets 1 1 [tweet3, tweet1, tweet2] sampleState) = Some [tweet1]
   \<and> fst (runDelete sampleEnv (sampleFlags\<lparr>offset := 3, sortOrder := ''original''\<rparr>) 0)
       = OffsetOutOfRange
   \<and> httpCalls (out (snd (runDelete sampleEnv (sampleFlags\<lparr>offset := 3,
         sortOrder := ''original''\<rparr>) 0))) = []"
proof -
  have pos: "(0::int) < 2" "(0::int) < 1" and ne: "[tweet3, tweet1, tweet2] \<noteq> []"
    by simp_all
  have "fst (runDelete sampleEnv (sampleFlags\<lparr>offset := 3, sortOrder := ''original''\<rparr>) 0)
          = OffsetOutOfRange
        \<and> httpCalls (out (snd (runDelete sampleEnv (sampleFlags\<lparr>offset := 3,
              sortOrder := ''original''\<rparr>) 0))) = []"
    by (simp add: selectTweets_def runDelete_def sampleFlags_def sample_root sample_files
        sample_read sortTweets_def Let_def emit_def)
  then show ?thesis
    using C3_offset_range_error_then_limit [OF pos(1) ne, where off = 3 and st = sampleState]
      C3_offset_range_error_then_limit [OF pos(2) ne, where off = 5 and st = sampleState]
      C3_offset_range_error_then_limit [OF pos(2) ne, where off = 1 and st = sampleState]
    by simp
qed

text \<open>
  Claim C4, the code at the failing input: with \<^verbatim>\<open>--limit 101\<close> on an archive of 101
  tweets nothing is rejected. The selection holds all 101 tweets, and the dry run on
  that archive ends as a dry run, after displaying them.
\<close>

theorem C4_limit_101_is_accepted:
  "selectTweets 101 0 (replicate 101 tweet1) sampleState = (Some (replicate 101 tweet1), sampleState)
   \<and> fst (runDelete sampleEnv (sampleFlags\<lparr>limit := 101, archivePath := ''big'',
            dryRun := True, sortOrder := ''original''\<rparr>) 0) = DryRun"
  by (simp add: selectTweets_def runDelete_def sampleFlags_def sample_root sample_files_big
     sample_read sortTweets_def Let_def emit_def confirmAndDelete_def)

lemma selectTweets_at_most_limit:
  "0 < lim \<Longrightarrow> fst (selectTweets lim off tweets st) = Some sel \<Longrightarrow> int (length sel) \<le> lim"
  by (auto simp: selectTweets_def Let_def split: if_splits prod.splits)

subsection \<open>Sorting\<close>

text \<open>The two comparisons are comparisons of a key: the parsed time, and its negation.\<close>

lemma oldestFirst_key: "oldestFirst env = (\<lambda>a b. parsedTime env a < parsedTime env b)"
  by (rule ext, rule ext) (simp add: oldestFirst_def)

lemma newestFirst_key: "newestFirst env = (\<lambda>a b. - parsedTime env a < - parsedTime env b)"
  by (rule ext, rule ext) (simp add: newestFirst_def)

lemma mset_insertBy: "mset (insertBy lt x xs) = add_mset x (mset xs)"
  by (induction xs) simp_all

lemma set_insertBy: "set (insertBy lt x xs) = insert x (set xs)"
  by (induction xs) auto

lemma sorted_insertBy:
  fixes k :: "'a \<Rightarrow> int"
  shows "sorted_wrt (\<lambda>a b. k a \<le> k b) xs \<Longrightarrow>
         sorted_wrt (\<lambda>a b. k a \<le> k b) (insertBy (\<lambda>a b. k a < k b) x xs)"
  by (induction xs) (auto simp: set_insertBy)

lemma stableSort_sorts:
  fixes k :: "'a \<Rightarrow> int"
  shows "mset (stableSort (\<lambda>a b. k a < k b) xs) = mset xs
       \<and> sorted_wrt (\<lambda>a b. k a \<le> k b) (stableSort (\<lambda>a b. k a < k b) xs)"
  by (induction xs) (simp_all add: stableSort_def mset_insertBy sorted_insertBy)

lemma sortsBy_stableSort:
  fixes k :: "'a \<Rightarrow> int"
  shows "sortsBy stableSort (\<lambda>a b. k a < k b)"
  using stableSort_sorts [of k] by (simp add: sortsBy_def not_less)

lemma sample_sortsBy:
  "sortsBy (sort_Slice sampleEnv) (oldestFirst sampleEnv)"
  "sortsBy (sort_Slice sampleEnv) (newestFirst sampleEnv)"
proof -
  have s: "sort_Slice sampleEnv = stableSort"
    by (simp add: sampleEnv_def)
  show "sortsBy (sort_Slice sampleEnv) (oldestFirst sampleEnv)"
    unfolding s oldestFirst_key by (rule sortsBy_stableSort)
  show "sortsBy (sort_Slice sampleEnv) (newestFirst sampleEnv)"
    unfolding s newestFirst_key by (rule sortsBy_stableSort)
qed

lemma sample_times:
  "parsedTime sampleEnv tweet1 = 63745056000000000000"
  "parsedTime sampleEnv tweet2 = 63758102400000000000"
  "parsedTime sampleEnv tweet3 = 63713433600000000000"
  "parsedTime sampleEnv tweetTie = 63745056000000000000"
  by (simp_all add: parsedTime_def sampleEnv_def sampleTimes_def tweet1_def tweet2_def
      tweet3_def tweetTie_def)

lemma unparsed_times:
  "parsedTime sampleEnv tweetBad = 0"
  "parsedTime sampleEnv tweetEarly = - 3600000000000"
  "time_Parse sampleEnv (CreatedAt tweetBad) = None"
  "time_Parse sampleEnv (CreatedAt tweetEarly) = Some (- 3600000000000)"
  by (simp_all add: parsedTime_def sampleEnv_def sampleTimes_def tweetBad_def tweetEarly_def)

lemma sample_parse:
  "time_Parse sampleEnv (CreatedAt tweet1) = Some 63745056000000000000"
  "time_Parse sampleEnv (CreatedAt tweetTie) = Some 63745056000000000000"
  by (simp_all add: sampleEnv_def sampleTimes_def tweet1_def tweetTie_def)

lemma sortTweets_fst:
  "fst (sortTweets env ''oldest'' tweets st) = sort_Slice env (oldestFirst env) tweets"
  "fst (sortTweets env ''newest'' tweets st) = sort_Slice env (newestFirst env) tweets"
  by (simp_all add: sortTweets_def)

lemma sample_sorts:
  "sort_Slice sampleEnv (oldestFirst sampleEnv) [tweet1, tweet2, tweet3] = [tweet3, tweet1, tweet2]"
  "sort_Slice sampleEnv (newestFirst sampleEnv) [tweet1, tweet2, tweet3] = [tweet2, tweet1, tweet3]"
  "sort_Slice sampleEnv (oldestFirst sampleEnv) [tweet1, tweetTie] = [tweet1, tweetTie]"
  "sort_Slice sampleEnv (newestFirst sampleEnv) [tweet1, tweetTie] = [tweet1, tweetTie]"
proof -
  have s: "sort_Slice sampleEnv = stableSort"
    by (simp add: sampleEnv_def)
  show "sort_Slice sampleEnv (oldestFirst sampleEnv) [tweet1, tweet2, tweet3] = [tweet3, tweet1, tweet2]"
    "sort_Slice sampleEnv (newestFirst sampleEnv) [tweet1, tweet2, tweet3] = [tweet2, tweet1, tweet3]"
    "sort_Slice sampleEnv (oldestFirst sampleEnv) [tweet1, tweetTie] = [tweet1, tweetTie]"
    "sort_Slice sampleEnv (newestFirst sampleEnv) [tweet1, tweetTie] = [tweet1, tweetTie]"
    unfolding s
    by (simp_all add: stableSort_def oldestFirst_def newestFirst_def sample_times)
qed

lemma unparsed_sorts:
  "sort_Slice sampleEnv (oldestFirst sampleEnv) [tweetBad, tweetEarly] = [tweetEarly, tweetBad]"
  "sort_Slice sampleEnv (newestFirst sampleEnv) [tweetBad, tweetEarly] = [tweetBad, tweetEarly]"
  "sort_Slice sampleEnv (oldestFirst sampleEnv) [tweet1, tweetBad, tweet3] = [tweetBad, tweet3, tweet1]"
  "sort_Slice sampleEnv (newestFirst sampleEnv) [tweet1, tweetBad, tweet3] = [tweet1, tweet3, tweetBad]"
proof -
  have s: "sort_Slice sampleEnv = stableSort"
    by (simp add: sampleEnv_def)
  show "sort_Slice sampleEnv (oldestFirst sampleEnv) [tweetBad, tweetEarly] = [tweetEarly, tweetBad]"
    "sort_Slice sampleEnv (newestFirst sampleEnv) [tweetBad, tweetEarly] = [tweetBad, tweetEarly]"
    "sort_Slice sampleEnv (oldestFirst sampleEnv) [tweet1, tweetBad, tweet3] = [tweetBad, tweet3, tweet1]"
    "sort_Slice sampleEnv (newestFirst sampleEnv) [tweet1, tweetBad, tweet3] = [tweet1, tweet3, tweetBad]"
    unfolding s
    by (simp_all add: stableSort_def oldestFirst_def newestFirst_def sample_times unparsed_times)
qed

lemma sorted_by_oldest:
  "sortsBy (sort_Slice env) (oldestFirst env) \<Longrightarrow>
     mset (sort_Slice env (oldestFirst env) tweets) = mset tweets
     \<and> sorted_wrt (\<lambda>a b. parsedTime env a \<le> parsedTime env b) (sort_Slice env (oldestFirst env) tweets)"
  by (simp add: sortsBy_def oldestFirst_def not_less)

lemma sorted_by_newest:
  "sortsBy (sort_Slice env) (newestFirst env) \<Longrightarrow>
     mset (sort_Slice env (newestFirst env) tweets) = mset tweets
     \<and> sorted_wrt (\<lambda>a b. parsedTime env b \<le> parsedTime env a) (sort_Slice env (newestFirst env) tweets)"
  by (simp add: sortsBy_def newestFirst_def not_less)










text \<open>
  Claim C6, as amended. Whenever \<^verbatim>\<open>sort.Slice\<close> does what it is documented to do and no two
  tweets have the same parsed time (a timestamp that fails to parse counting as the zero
  time), the \<open>newest\<close> order is the reverse of the \<open>oldest\<close> order.
\<close>

theorem C6_newest_is_reverse_when_times_distinct:
  assumes old: "sortsBy (sort_Slice env) (oldestFirst env)"
    and new: "sortsBy (sort_Slice env) (newestFirst env)"
    and dist: "distinct (map (parsedTime env) tweets)"
  shows "fst (sortTweets env ''newest'' tweets st) = rev (fst (sortTweets env ''oldest'' tweets st))"
proof -
  let ?k = "parsedTime env"
  let ?ys = "sort_Slice env (oldestFirst env) tweets"
  let ?zs = "sort_Slice env (newestFirst env) tweets"
  have ys: "mset ?ys = mset tweets" "sorted_wrt (\<lambda>a b. ?k a \<le> ?k b) ?ys"
    using sorted_by_oldest [OF old, of tweets] by simp_all
  have zs: "mset ?zs = mset tweets" "sorted_wrt (\<lambda>a b. ?k b \<le> ?k a) ?zs"
    using sorted_by_newest [OF new, of tweets] by simp_all
  have sy: "sorted (map ?k ?ys)"
    using ys(2) by (simp add: sorted_wrt_map)
  have "sorted_wrt (\<lambda>a b. ?k a \<le> ?k b) (rev ?zs)"
    using zs(2) by (simp add: sorted_wrt_rev)
  then have sz: "sorted (map ?k (rev ?zs))"
    by (simp add: sorted_wrt_map)
  have ms: "mset (map ?k ?ys) = mset (map ?k (rev ?zs))"
    using ys(1) zs(1) by simp
  have "sort (map ?k (rev ?zs)) = map ?k ?ys"
    using ms sy by (rule properties_for_sort)
  moreover have "sort (map ?k (rev ?zs)) = map ?k (rev ?zs)"
    using sz by (rule sorted_sort_id)
  ultimately have keys: "map ?k ?ys = map ?k (rev ?zs)"
    by simp
  have "set ?ys = set tweets"
    using ys(1) by (rule mset_eq_setD)
  moreover have "set ?zs = set tweets"
    using zs(1) by (rule mset_eq_setD)
  ultimately have sets: "set ?ys = set tweets" "set (rev ?zs) = set tweets"
    by simp_all
  have "inj_on ?k (set tweets)"
    using dist by (simp add: distinct_map)
  then have "inj_on ?k (set ?ys \<union> set (rev ?zs))"
    using sets by simp
  then have "?ys = rev ?zs"
    using keys by (simp add: inj_on_map_eq_map)
  then show ?thesis by (simp add: sortTweets_fst)
qed

text \<open>The theorem on the three tweets of the scenario, whose times differ.\<close>

theorem C6_newest_is_reverse_when_times_distinct_witness:
  "sortsBy (sort_Slice sampleEnv) (oldestFirst sampleEnv)
   \<and> sortsBy (sort_Slice sampleEnv) (newestFirst sampleEnv)
   \<and> distinct (map (parsedTime sampleEnv) [tweet1, tweet2, tweet3])
   \<and> fst (sortTweets sampleEnv ''newest'' [tweet1, tweet2, tweet3] sampleState)
       = rev (fst (sortTweets sampleEnv ''oldest'' [tweet1, tweet2, tweet3] sampleState))
   \<and> fst (sortTweets sampleEnv ''newest'' [tweet1, tweet2, tweet3] sampleState)
       = [tweet2, tweet1, tweet3]"
proof -
  have d: "distinct (map (parsedTime sampleEnv) [tweet1, tweet2, tweet3])"
    by (simp add: sample_times)
  show ?thesis
    using C6_newest_is_reverse_when_times_distinct [OF sample_sortsBy(1) sample_sortsBy(2) d,
        where st = sampleState] d sample_sortsBy(1) sample_sortsBy(2)
    by (simp add: sortTweets_fst sample_sorts)
qed

text \<open>
  Claim C6 as stated fails: both timestamps parse, to the same instant. The stable sort
  keeps \<open>tweet1\<close> before \<open>tweetTie\<close> in both modes, so the \<open>newest\<close> order is not the
  reverse of the \<open>oldest\<close> order.
\<close>

theorem C6_equal_times_not_reversed:
  "sortsBy (sort_Slice sampleEnv) (oldestFirst sampleEnv)
   \<and> sortsBy (sort_Slice sampleEnv) (newestFirst sampleEnv)
   \<and> time_Parse sampleEnv (CreatedAt tweet1) = Some 63745056000000000000
   \<and> time_Parse sampleEnv (CreatedAt tweetTie) = Some 63745056000000000000
   \<and> fst (sortTweets sampleEnv ''newest'' [tweet1, tweetTie] sampleState) = [tweet1, tweetTie]
   \<and> rev (fst (sortTweets sampleEnv ''oldest'' [tweet1, tweetTie] sampleState)) = [tweetTie, tweet1]
   \<and> tweet1 \<noteq> tweetTie"
  using sample_sortsBy(1) sample_sortsBy(2)
  by (simp add: sortTweets_fst sample_sorts sample_parse) (simp add: tweet1_def tweetTie_def)

lemma sorted_key_positions:
  fixes k :: "'a \<Rightarrow> int"
  assumes s: "sorted_wrt (\<lambda>a b. k a \<le> k b) xs"
    and i: "i < length xs" and j: "j < length xs" and lt: "k (xs ! i) < k (xs ! j)"
  shows "i < j"
proof (rule ccontr)
  assume c: "\<not> i < j"
  show False
  proof (cases "i = j")
    case True
    then show False using lt by simp
  next
    case False
    then have "j < i" using c by simp
    then have "k (xs ! j) \<le> k (xs ! i)"
      using s i by (simp add: sorted_wrt_iff_nth_less)
    then show False using lt by simp
  qed
qed

lemma sorted_key_positions_desc:
  fixes k :: "'a \<Rightarrow> int"
  assumes s: "sorted_wrt (\<lambda>a b. k b \<le> k a) xs"
    and i: "i < length xs" and j: "j < length xs" and lt: "k (xs ! j) < k (xs ! i)"
  shows "i < j"
  using sorted_key_positions [of "\<lambda>a. - k a" xs i j] s i j lt by simp

text \<open>
  Claim C7, as amended. A tweet whose timestamp fails to parse is compared as the zero
  \<^verbatim>\<open>Time\<close>. Whenever \<^verbatim>\<open>sort.Slice\<close> does what it is documented to do: in the \<open>oldest\<close> order the
  tweet stands before every tweet with a parsed time after the zero time and after every
  tweet with a parsed time before the zero time; in the \<open>newest\<close> order it is the other
  way round.
\<close>

theorem C7_parse_failure_sorts_as_zero_time:
  assumes old: "sortsBy (sort_Slice env) (oldestFirst env)"
    and new: "sortsBy (sort_Slice env) (newestFirst env)"
    and fail: "time_Parse env (CreatedAt r) = None"
  shows "parsedTime env r = 0
       \<and> (\<forall>i j. i < length (fst (sortTweets env ''oldest'' tweets st))
              \<and> j < length (fst (sortTweets env ''oldest'' tweets st))
              \<and> fst (sortTweets env ''oldest'' tweets st) ! i = r
              \<and> 0 < parsedTime env (fst (sortTweets env ''oldest'' tweets st) ! j) \<longrightarrow> i < j)
       \<and> (\<forall>i j. i < length (fst (sortTweets env ''oldest'' tweets st))
              \<and> j < length (fst (sortTweets env ''oldest'' tweets st))
              \<and> fst (sortTweets env ''oldest'' tweets st) ! i = r
              \<and> parsedTime env (fst (sortTweets env ''oldest'' tweets st) ! j) < 0 \<longrightarrow> j < i)
       \<and> (\<forall>i j. i < length (fst (sortTweets env ''newest'' tweets st))
              \<and> j < length (fst (sortTweets env ''newest'' tweets st))
              \<and> fst (sortTweets env ''newest'' tweets st) ! i = r
              \<and> 0 < parsedTime env (fst (sortTweets env ''newest'' tweets st) ! j) \<longrightarrow> j < i)
       \<and> (\<forall>i j. i < length (fst (sortTweets env ''newest'' tweets st))
              \<and> j < length (fst (sortTweets env ''newest'' tweets st))
              \<and> fst (sortTweets env ''newest'' tweets st) ! i = r
              \<and> parsedTime env (fst (sortTweets env ''newest'' tweets st) ! j) < 0 \<longrightarrow> i < j)"
proof -
  let ?k = "parsedTime env"
  let ?ys = "sort_Slice env (oldestFirst env) tweets"
  let ?zs = "sort_Slice env (newestFirst env) tweets"
  have zero: "?k r = 0" using fail by (simp add: parsedTime_def)
  have ys: "sorted_wrt (\<lambda>a b. ?k a \<le> ?k b) ?ys"
    using sorted_by_oldest [OF old, of tweets] by simp
  have zs: "sorted_wrt (\<lambda>a b. ?k b \<le> ?k a) ?zs"
    using sorted_by_newest [OF new, of tweets] by simp
  have a: "i < j" if "i < length ?ys" "j < length ?ys" "?ys ! i = r" "0 < ?k (?ys ! j)" for i j
    using sorted_key_positions [OF ys that(1) that(2)] that(3) that(4) zero by simp
  have b: "j < i" if "i < length ?ys" "j < length ?ys" "?ys ! i = r" "?k (?ys ! j) < 0" for i j
    using sorted_key_positions [OF ys that(2) that(1)] that(3) that(4) zero by simp
  have c: "j < i" if "i < length ?zs" "j < length ?zs" "?zs ! i = r" "0 < ?k (?zs ! j)" for i j
    using sorted_key_positions_desc [OF zs that(2) that(1)] that(3) that(4) zero by simp
  have d: "i < j" if "i < length ?zs" "j < length ?zs" "?zs ! i = r" "?k (?zs ! j) < 0" for i j
    using sorted_key_positions_desc [OF zs that(1) that(2)] that(3) that(4) zero by simp
  show ?thesis
    unfolding sortTweets_fst using zero a b c d by blast
qed

text \<open>
  The theorem on a list with a timestamp that does not parse, between two that do: the
  tweet is first in the \<open>oldest\<close> order and last in the \<open>newest\<close> order.
\<close>

theorem C7_parse_failure_sorts_as_zero_time_witness:
  "sortsBy (sort_Slice sampleEnv) (oldestFirst sampleEnv)
   \<and> sortsBy (sort_Slice sampleEnv) (newestFirst sampleEnv)
   \<and> time_Parse sampleEnv (CreatedAt tweetBad) = None
   \<and> parsedTime sampleEnv tweetBad = 0
   \<and> fst (sortTweets sampleEnv ''oldest'' [tweet1, tweetBad, tweet3] sampleState)
       = [tweetBad, tweet3, tweet1]
   \<and> fst (sortTweets sampleEnv ''newest'' [tweet1, tweetBad, tweet3] sampleState)
       = [tweet1, tweet3, tweetBad]"
  using C7_parse_failure_sorts_as_zero_time [OF sample_sortsBy(1) sample_sortsBy(2) unparsed_times(3),
      where tweets = "[tweet1, tweetBad, tweet3]" and st = sampleState]
    sample_sortsBy(1) sample_sortsBy(2)
  by (simp add: sortTweets_fst unparsed_sorts unparsed_times)

text \<open>
  Claim C7 as stated fails: the zero time is not the earliest possible value. The
  timestamp of \<open>tweetEarly\<close> parses, to an instant one hour before the zero time. In the
  \<open>oldest\<close> order the tweet whose timestamp fails to parse comes after it, last, and in
  the \<open>newest\<close> order before it, first.
\<close>

theorem C7_zero_time_is_not_earliest:
  "time_Parse sampleEnv (CreatedAt tweetBad) = None
   \<and> time_Parse sampleEnv (CreatedAt tweetEarly) = Some (- 3600000000000)
   \<and> fst (sortTweets sampleEnv ''oldest'' [tweetBad, tweetEarly] sampleState) = [tweetEarly, tweetBad]
   \<and> fst (sortTweets sampleEnv ''newest'' [tweetBad, tweetEarly] sampleState) = [tweetBad, tweetEarly]"
  by (simp add: sortTweets_fst unparsed_sorts unparsed_times)

text \<open>
  The scenario of the specification: three tweets dated 2021-01-01, 2021-06-01 and
  2020-01-01, \<open>oldest\<close> first, limit 2: the selection is the tweet of 2020-01-01 and
  then the tweet of 2021-01-01.
\<close>

lemma scenario_oldest_limit_2:
  "fst (selectTweets 2 0 (fst (sortTweets sampleEnv ''oldest'' [tweet1, tweet2, tweet3] sampleState))
         sampleState) = Some [tweet3, tweet1]"
  by (simp add: sortTweets_fst sample_sorts selectTweets_def)

end
